theory Spec2Isabelle
  imports Complex_Main "HOL-Library.Monad_Syntax"
begin

section \<open>JavaScript values\<close>

text \<open>
  The adapter \<^verbatim>\<open>src/classes/mediaservers/jellyfin.js\<close> works on parsed JSON and on
  configuration values, so the value universe is the JSON-like part of JavaScript:
  \<^verbatim>\<open>undefined\<close>, \<^verbatim>\<open>null\<close>, booleans, numbers, strings, arrays and plain objects
  (an association list of own data properties, keys distinct, in insertion order).

  Numbers are the exact rationals together with \<^verbatim>\<open>NaN\<close>, \<^verbatim>\<open>Infinity\<close> and
  \<^verbatim>\<open>-Infinity\<close>: arithmetic is exact where IEEE-754 doubles would round, and negative
  zero is identified with zero. Strings are lists of 8-bit characters, read as the code
  units U+0000 .. U+00FF.

  An exception is the value \<open>None\<close> of an option type: every \<^verbatim>\<open>catch\<close> of the source
  ignores the exception it catches.
\<close>

datatype jsnum = NaN | PInf | NInf | Fin rat

datatype jsval =
    JUndefined
  | JNull
  | JBool bool
  | JNum jsnum
  | JStr string
  | JArr "jsval list"
  | JObj "(string \<times> jsval) list"

text \<open>ToBoolean: what \<^verbatim>\<open>!x\<close>, \<^verbatim>\<open>x ? a : b\<close>, \<^verbatim>\<open>x || y\<close> and \<^verbatim>\<open>x && y\<close> test.\<close>

fun truthy :: "jsval \<Rightarrow> bool" where
  "truthy JUndefined = False"
| "truthy JNull = False"
| "truthy (JBool b) = b"
| "truthy (JNum n) = (n \<noteq> NaN \<and> n \<noteq> Fin 0)"
| "truthy (JStr s) = (s \<noteq> [])"
| "truthy (JArr xs) = True"
| "truthy (JObj kvs) = True"

text \<open>\<^verbatim>\<open>a || b\<close> and \<^verbatim>\<open>a && b\<close> for operands whose evaluation cannot throw.\<close>

definition js_or :: "jsval \<Rightarrow> jsval \<Rightarrow> jsval" where
  "js_or a b = (if truthy a then a else b)"

definition js_and :: "jsval \<Rightarrow> jsval \<Rightarrow> jsval" where
  "js_and a b = (if truthy a then b else a)"

text \<open>\<^verbatim>\<open>x == null\<close>: true of \<^verbatim>\<open>null\<close> and \<^verbatim>\<open>undefined\<close> only.\<close>

definition nullish :: "jsval \<Rightarrow> bool" where
  "nullish v = (v = JNull \<or> v = JUndefined)"

subsection \<open>Decimal digits\<close>

definition digit_char :: "int \<Rightarrow> char" where
  "digit_char d = char_of (48 + d)"

function dec_digits :: "int \<Rightarrow> string" where
  "dec_digits n =
     (if n < 10 then [digit_char n] else dec_digits (n div 10) @ [digit_char (n mod 10)])"
  by pat_completeness auto
termination
  by (relation "measure nat") auto

declare dec_digits.simps [simp del]

definition is_digit :: "char \<Rightarrow> bool" where
  "is_digit c = (48 \<le> (of_char c :: int) \<and> (of_char c :: int) \<le> 57)"

definition digit_val :: "char \<Rightarrow> int" where
  "digit_val c = of_char c - 48"

definition int_of_digits :: "int \<Rightarrow> (char \<Rightarrow> int) \<Rightarrow> string \<Rightarrow> int" where
  "int_of_digits base val s = foldl (\<lambda>a c. base * a + val c) 0 s"

subsection \<open>Property reads\<close>

text \<open>
  \<^verbatim>\<open>v.k\<close> for a receiver that is neither \<^verbatim>\<open>null\<close> nor \<^verbatim>\<open>undefined\<close>: an own data
  property of an object, \<^verbatim>\<open>length\<close> and the index properties of an array or a string,
  and \<^verbatim>\<open>undefined\<close> otherwise. The source reads only data properties; the methods it
  calls (\<^verbatim>\<open>map\<close>, \<^verbatim>\<open>toLowerCase\<close>, \<^verbatim>\<open>slice\<close>) are modelled as functions below.
\<close>

definition index_of_key :: "nat \<Rightarrow> string \<Rightarrow> nat option" where
  "index_of_key n k = List.find (\<lambda>i. dec_digits (int i) = k) [0..<n]"

fun get_prop :: "jsval \<Rightarrow> string \<Rightarrow> jsval" where
  "get_prop (JObj kvs) k = (case map_of kvs k of Some v \<Rightarrow> v | None \<Rightarrow> JUndefined)"
| "get_prop (JArr xs) k =
     (if k = ''length'' then JNum (Fin (of_nat (length xs)))
      else case index_of_key (length xs) k of Some i \<Rightarrow> xs ! i | None \<Rightarrow> JUndefined)"
| "get_prop (JStr s) k =
     (if k = ''length'' then JNum (Fin (of_nat (length s)))
      else case index_of_key (length s) k of Some i \<Rightarrow> JStr [s ! i] | None \<Rightarrow> JUndefined)"
| "get_prop v k = JUndefined"

text \<open>\<^verbatim>\<open>v.k\<close> for any receiver: a \<^verbatim>\<open>TypeError\<close> on \<^verbatim>\<open>null\<close> and \<^verbatim>\<open>undefined\<close>.\<close>

definition read_prop :: "jsval \<Rightarrow> string \<Rightarrow> jsval option" where
  "read_prop v k = (if nullish v then None else Some (get_prop v k))"

text \<open>\<^verbatim>\<open>o.k = v\<close> on a plain object: the property is replaced in place or appended.\<close>

fun set_field :: "(string \<times> jsval) list \<Rightarrow> string \<Rightarrow> jsval \<Rightarrow> (string \<times> jsval) list" where
  "set_field [] k v = [(k, v)]"
| "set_field ((k', v') # kvs) k v =
     (if k' = k then (k, v) # kvs else (k', v') # set_field kvs k v)"

text \<open>
  \<^verbatim>\<open>delete v.k\<close>: removes the own property of a plain object; on an array, a string or
  another primitive the name the source deletes is not an own property, and nothing
  changes.
\<close>

fun delete_prop :: "jsval \<Rightarrow> string \<Rightarrow> jsval" where
  "delete_prop (JObj kvs) k = JObj (filter (\<lambda>kv. fst kv \<noteq> k) kvs)"
| "delete_prop v k = v"

subsection \<open>Operations on numbers\<close>

text \<open>\<^verbatim>\<open>Math.floor\<close> and \<^verbatim>\<open>Math.round\<close> (halves round towards \<^verbatim>\<open>+Infinity\<close>).\<close>

fun js_floor :: "jsnum \<Rightarrow> jsnum" where
  "js_floor (Fin q) = Fin (of_int \<lfloor>q\<rfloor>)"
| "js_floor n = n"

fun js_round :: "jsnum \<Rightarrow> jsnum" where
  "js_round (Fin q) = Fin (of_int (round q))"
| "js_round n = n"

fun js_neg :: "jsnum \<Rightarrow> jsnum" where
  "js_neg NaN = NaN"
| "js_neg PInf = NInf"
| "js_neg NInf = PInf"
| "js_neg (Fin q) = Fin (- q)"

text \<open>\<^verbatim>\<open>a / b\<close> and \<^verbatim>\<open>a * b\<close> on numbers.\<close>

fun js_div :: "jsnum \<Rightarrow> jsnum \<Rightarrow> jsnum" where
  "js_div NaN b = NaN"
| "js_div a NaN = NaN"
| "js_div (Fin a) (Fin b) =
     (if b = 0 then (if a = 0 then NaN else if 0 < a then PInf else NInf) else Fin (a / b))"
| "js_div (Fin a) b = Fin 0"
| "js_div a (Fin b) = (if 0 \<le> b then a else js_neg a)"
| "js_div a b = NaN"

fun js_mul :: "jsnum \<Rightarrow> jsnum \<Rightarrow> jsnum" where
  "js_mul NaN b = NaN"
| "js_mul a NaN = NaN"
| "js_mul (Fin a) (Fin b) = Fin (a * b)"
| "js_mul (Fin a) b = (if a = 0 then NaN else if 0 < a then b else js_neg b)"
| "js_mul a (Fin b) = (if b = 0 then NaN else if 0 < b then a else js_neg a)"
| "js_mul a b = (if a = b then PInf else NInf)"

text \<open>The order of the numbers other than \<^verbatim>\<open>NaN\<close>, and \<^verbatim>\<open>Math.min\<close> of two arguments.\<close>

fun js_le :: "jsnum \<Rightarrow> jsnum \<Rightarrow> bool" where
  "js_le NaN b = False"
| "js_le a NaN = False"
| "js_le NInf b = True"
| "js_le a PInf = True"
| "js_le (Fin a) (Fin b) = (a \<le> b)"
| "js_le a b = False"

definition js_min :: "jsnum \<Rightarrow> jsnum \<Rightarrow> jsnum" where
  "js_min a b = (if a = NaN \<or> b = NaN then NaN else if js_le a b then a else b)"

text \<open>
  \<^verbatim>\<open>xs.slice(0, end)\<close> for a number \<^verbatim>\<open>end\<close>: the end is truncated towards zero, a
  negative end counts from the end of the array, and the result is cut to the array.
\<close>

definition slice0 :: "'a list \<Rightarrow> jsnum \<Rightarrow> 'a list" where
  "slice0 xs e =
     (case e of
        NaN \<Rightarrow> []
      | PInf \<Rightarrow> xs
      | NInf \<Rightarrow> []
      | Fin q \<Rightarrow>
          (let r = (if 0 \<le> q then \<lfloor>q\<rfloor> else \<lceil>q\<rceil>)
           in if r < 0 then take (nat (int (length xs) + r)) xs else take (nat r) xs))"

subsection \<open>Strings to numbers\<close>

text \<open>
  \<^verbatim>\<open>Number(s)\<close> for a string: white space is trimmed, the empty string is 0, and the
  rest is a signed decimal literal (digits, fraction, exponent, \<^verbatim>\<open>Infinity\<close>) or an
  unsigned literal in base 16, 8 or 2; anything else is \<^verbatim>\<open>NaN\<close>.
\<close>

definition is_ws :: "char \<Rightarrow> bool" where
  "is_ws c = ((of_char c :: int) \<in> {9, 10, 11, 12, 13, 32, 160})"

definition trim :: "string \<Rightarrow> string" where
  "trim s = rev (dropWhile is_ws (rev (dropWhile is_ws s)))"

definition is_hex_digit :: "char \<Rightarrow> bool" where
  "is_hex_digit c =
     (let n = (of_char c :: int) in (48 \<le> n \<and> n \<le> 57) \<or> (65 \<le> n \<and> n \<le> 70) \<or> (97 \<le> n \<and> n \<le> 102))"

definition hex_val :: "char \<Rightarrow> int" where
  "hex_val c = (let n = (of_char c :: int) in if n \<le> 57 then n - 48 else if n \<le> 70 then n - 55 else n - 87)"

definition is_oct_digit :: "char \<Rightarrow> bool" where
  "is_oct_digit c = (48 \<le> (of_char c :: int) \<and> (of_char c :: int) \<le> 55)"

definition is_bin_digit :: "char \<Rightarrow> bool" where
  "is_bin_digit c = (c = CHR ''0'' \<or> c = CHR ''1'')"

definition parse_radix :: "int \<Rightarrow> (char \<Rightarrow> bool) \<Rightarrow> (char \<Rightarrow> int) \<Rightarrow> string \<Rightarrow> jsnum" where
  "parse_radix base ok val ds =
     (if ds \<noteq> [] \<and> list_all ok ds then Fin (of_int (int_of_digits base val ds)) else NaN)"

definition parse_digits :: "string \<Rightarrow> int option" where
  "parse_digits ds =
     (if ds \<noteq> [] \<and> list_all is_digit ds then Some (int_of_digits 10 digit_val ds) else None)"

definition parse_exponent :: "string \<Rightarrow> int option" where
  "parse_exponent s =
     (case s of
        [] \<Rightarrow> None
      | c # ds \<Rightarrow>
          if c = CHR ''+'' then parse_digits ds
          else if c = CHR ''-'' then map_option uminus (parse_digits ds)
          else parse_digits s)"

definition parse_decimal :: "string \<Rightarrow> jsnum" where
  "parse_decimal s =
     (if s = ''Infinity'' then PInf
      else
        let ip = takeWhile is_digit s;
            r1 = dropWhile is_digit s;
            dot = (case r1 of [] \<Rightarrow> False | c # t \<Rightarrow> c = CHR ''.'');
            fp = (if dot then takeWhile is_digit (tl r1) else []);
            r2 = (if dot then dropWhile is_digit (tl r1) else r1);
            m = (of_int (int_of_digits 10 digit_val (ip @ fp)) :: rat) / 10 ^ length fp
        in if ip = [] \<and> fp = [] then NaN
           else case r2 of
                  [] \<Rightarrow> Fin m
                | c # t \<Rightarrow>
                    if c = CHR ''e'' \<or> c = CHR ''E''
                    then (case parse_exponent t of None \<Rightarrow> NaN | Some e \<Rightarrow> Fin (m * 10 powi e))
                    else NaN)"

definition StringToNumber :: "string \<Rightarrow> jsnum" where
  "StringToNumber s =
     (let t = trim s in
      if t = [] then Fin 0
      else if take 2 t = ''0x'' \<or> take 2 t = ''0X'' then parse_radix 16 is_hex_digit hex_val (drop 2 t)
      else if take 2 t = ''0o'' \<or> take 2 t = ''0O'' then parse_radix 8 is_oct_digit digit_val (drop 2 t)
      else if take 2 t = ''0b'' \<or> take 2 t = ''0B'' then parse_radix 2 is_bin_digit digit_val (drop 2 t)
      else if hd t = CHR ''+'' then parse_decimal (tl t)
      else if hd t = CHR ''-'' then js_neg (parse_decimal (tl t))
      else parse_decimal t)"

subsection \<open>Numbers to strings\<close>

text \<open>
  \<^verbatim>\<open>String(n)\<close> for a number: the decimal digits of \<open>n\<close>, rounded to 17 significant
  digits (a double has no more), without trailing zeros, laid out as JavaScript does:
  plain digits for an exponent of at most 21, a leading \<^verbatim>\<open>0.\<close> down to \<open>10\<^sup>-\<^sup>6\<close>, and
  exponent notation beyond.
\<close>

definition dec_exponent :: "rat \<Rightarrow> int" where
  "dec_exponent q =
     (if 1 \<le> q then int (length (dec_digits \<lfloor>q\<rfloor>))
      else - int (length (takeWhile (\<lambda>z. q * 10 ^ (z + 1) < 1)
                            [0..<length (dec_digits (snd (quotient_of q)))])))"

definition sig_digits :: "rat \<Rightarrow> string \<times> int" where
  "sig_digits q =
     (let n0 = dec_exponent q;
          ds0 = dec_digits (round (q * 10 powi (17 - n0)));
          n = (if length ds0 = 18 then n0 + 1 else n0)
      in (rev (dropWhile (\<lambda>c. c = CHR ''0'') (rev ds0)), n))"

definition format_digits :: "string \<times> int \<Rightarrow> string" where
  "format_digits dn =
     (let ds = fst dn; n = snd dn; k = int (length ds) in
      if k \<le> n \<and> n \<le> 21 then ds @ replicate (nat (n - k)) (CHR ''0'')
      else if 0 < n \<and> n \<le> 21 then take (nat n) ds @ ''.'' @ drop (nat n) ds
      else if - 6 < n \<and> n \<le> 0 then ''0.'' @ replicate (nat (- n)) (CHR ''0'') @ ds
      else
        let e = n - 1;
            es = (if e < 0 then ''-'' else ''+'') @ dec_digits \<bar>e\<bar>
        in if k = 1 then ds @ ''e'' @ es else take 1 ds @ ''.'' @ drop 1 ds @ ''e'' @ es)"

fun NumberToString :: "jsnum \<Rightarrow> string" where
  "NumberToString NaN = ''NaN''"
| "NumberToString PInf = ''Infinity''"
| "NumberToString NInf = ''-Infinity''"
| "NumberToString (Fin q) =
     (if q = 0 then ''0''
      else if q < 0 then ''-'' @ format_digits (sig_digits (- q))
      else format_digits (sig_digits q))"

subsection \<open>ToString and ToNumber\<close>

text \<open>
  \<^verbatim>\<open>String(v)\<close>, as template literals and \<^verbatim>\<open>encodeURIComponent\<close> apply it. An array is
  its elements joined by commas, \<^verbatim>\<open>null\<close> and \<^verbatim>\<open>undefined\<close> elements as empty strings. A
  plain object is \<^verbatim>\<open>[object Object]\<close>, unless an own property \<^verbatim>\<open>toString\<close> hides the
  inherited method: no JSON value is callable, and the conversion throws a
  \<^verbatim>\<open>TypeError\<close>.
\<close>

fun ToString :: "jsval \<Rightarrow> string option"
  and join_elems :: "jsval list \<Rightarrow> string option" where
  "ToString JUndefined = Some ''undefined''"
| "ToString JNull = Some ''null''"
| "ToString (JBool b) = Some (if b then ''true'' else ''false'')"
| "ToString (JNum n) = Some (NumberToString n)"
| "ToString (JStr s) = Some s"
| "ToString (JArr xs) = join_elems xs"
| "ToString (JObj kvs) =
     (if ''toString'' \<in> fst ` set kvs then None else Some ''[object Object]'')"
| "join_elems [] = Some []"
| "join_elems (x # xs) =
     do {
       s \<leftarrow> (if x = JNull \<or> x = JUndefined then Some [] else ToString x);
       if xs = [] then Some s
       else do { r \<leftarrow> join_elems xs; Some (s @ '','' @ r) }
     }"

text \<open>\<^verbatim>\<open>Number(v)\<close>, which is also what \<^verbatim>\<open>/\<close> and \<^verbatim>\<open>*\<close> apply to their operands.\<close>

fun ToNumber :: "jsval \<Rightarrow> jsnum option" where
  "ToNumber JUndefined = Some NaN"
| "ToNumber JNull = Some (Fin 0)"
| "ToNumber (JBool b) = Some (Fin (if b then 1 else 0))"
| "ToNumber (JNum n) = Some n"
| "ToNumber (JStr s) = Some (StringToNumber s)"
| "ToNumber v = map_option StringToNumber (ToString v)"

subsection \<open>String methods\<close>

text \<open>
  \<^verbatim>\<open>encodeURIComponent(v)\<close>: letters, digits and \<^verbatim>\<open>-_.!~*'()\<close> stay, every other
  character is replaced by the percent-escapes of its UTF-8 bytes. (It throws on a
  lone surrogate, which no string of 8-bit characters holds.)
\<close>

definition hex_char :: "nat \<Rightarrow> char" where
  "hex_char d = ''0123456789ABCDEF'' ! d"

definition pct :: "nat \<Rightarrow> string" where
  "pct b = [CHR ''%'', hex_char (b div 16), hex_char (b mod 16)]"

definition uri_unreserved :: "char \<Rightarrow> bool" where
  "uri_unreserved c =
     (let n = (of_char c :: nat) in
      (48 \<le> n \<and> n \<le> 57) \<or> (65 \<le> n \<and> n \<le> 90) \<or> (97 \<le> n \<and> n \<le> 122) \<or> c \<in> set ''-_.!~*'()'')"

definition encode_char :: "char \<Rightarrow> string" where
  "encode_char c =
     (let n = (of_char c :: nat) in
      if uri_unreserved c then [c]
      else if n < 128 then pct n
      else pct (192 + n div 64) @ pct (128 + n mod 64))"

definition encodeURIComponent :: "jsval \<Rightarrow> string option" where
  "encodeURIComponent v = map_option (\<lambda>s. concat (map encode_char s)) (ToString v)"

text \<open>
  \<^verbatim>\<open>v.toLowerCase()\<close>: defined on strings; on every other value the call throws a
  \<^verbatim>\<open>TypeError\<close> (no such method, or no property at all).
\<close>

definition lower_char :: "char \<Rightarrow> char" where
  "lower_char c =
     (let n = (of_char c :: nat) in
      if (65 \<le> n \<and> n \<le> 90) \<or> (192 \<le> n \<and> n \<le> 222 \<and> n \<noteq> 215) then char_of (n + 32) else c)"

fun toLowerCase :: "jsval \<Rightarrow> jsval option" where
  "toLowerCase (JStr s) = Some (JStr (map lower_char s))"
| "toLowerCase v = None"

text \<open>
  \<^verbatim>\<open>v.map(f)\<close>: defined on arrays, where the first exception of \<open>f\<close> ends the loop; on
  every other value the call throws a \<^verbatim>\<open>TypeError\<close>.
\<close>

fun map_opt :: "('a \<Rightarrow> 'b option) \<Rightarrow> 'a list \<Rightarrow> 'b list option" where
  "map_opt f [] = Some []"
| "map_opt f (x # xs) = do { y \<leftarrow> f x; ys \<leftarrow> map_opt f xs; Some (y # ys) }"

fun array_map :: "(jsval \<Rightarrow> jsval option) \<Rightarrow> jsval \<Rightarrow> jsval list option" where
  "array_map f (JArr xs) = map_opt f xs"
| "array_map f v = None"

section \<open>The adapter\<close>

subsection \<open>Helpers of the class\<close>

text \<open>
  \<^verbatim>\<open>_ticksToMs(ticks)\<close>, lines 38 to 45: \<^verbatim>\<open>null\<close> for a falsy argument other than the
  number 0 and for an argument that \<^verbatim>\<open>Number\<close> turns into \<^verbatim>\<open>NaN\<close>, and
  \<^verbatim>\<open>Math.floor(n / 10000)\<close> otherwise.
\<close>

definition ticksToMs :: "jsval \<Rightarrow> jsval option" where
  "ticksToMs ticks =
     (if \<not> truthy ticks \<and> ticks \<noteq> JNum (Fin 0) then Some JNull
      else do {
        n \<leftarrow> ToNumber ticks;
        if n = NaN then Some JNull
        else Some (JNum (js_floor (js_div n (Fin 10000))))
      })"

text \<open>
  \<^verbatim>\<open>_imageUrl(itemId, type = 'Primary', maxWidth)\<close>, lines 48 to 53. The default of
  \<^verbatim>\<open>type\<close> applies when the argument is \<^verbatim>\<open>undefined\<close>.
\<close>

definition imageUrl :: "jsval \<Rightarrow> jsval \<Rightarrow> jsval \<Rightarrow> string option" where
  "imageUrl itemId kind maxWidth =
     (let ty = (if kind = JUndefined then JStr ''Primary'' else kind) in
      do {
        qs \<leftarrow> (if truthy maxWidth
               then map_option (\<lambda>w. ''?maxWidth='' @ w) (ToString maxWidth)
               else Some []);
        i \<leftarrow> encodeURIComponent itemId;
        t \<leftarrow> encodeURIComponent ty;
        Some (''/jellyfin/image/'' @ i @ ''?type='' @ t @ qs)
      })"

text \<open>
  The expression of lines 77 and 190:
  \<^verbatim>\<open>(runtime && pos) ? Math.round((pos / runtime) * 100) : 0\<close>.
\<close>

definition progressPercent :: "jsval \<Rightarrow> jsval \<Rightarrow> jsval option" where
  "progressPercent runtime pos =
     (if truthy (js_and runtime pos)
      then do {
        p \<leftarrow> ToNumber pos;
        r \<leftarrow> ToNumber runtime;
        Some (JNum (js_round (js_mul (js_div p r) (Fin 100))))
      }
      else Some (JNum (Fin 0)))"

text \<open>
  The expression of lines 97 and 192:
  \<^verbatim>\<open>t === 'Movie' ? 'movie' : (t === 'Episode' ? 'episode' : '')\<close>.
\<close>

definition theme_of :: "jsval \<Rightarrow> jsval" where
  "theme_of t =
     (if t = JStr ''Movie'' then JStr ''movie''
      else if t = JStr ''Episode'' then JStr ''episode''
      else JStr [])"

text \<open>The expressions \<^verbatim>\<open>id ? this._imageUrl(id, kind) : null\<close> of lines 87, 88, 186 and 187.\<close>

definition image_or_null :: "jsval \<Rightarrow> string \<Rightarrow> jsval option" where
  "image_or_null ident kind =
     (if truthy ident then map_option JStr (imageUrl ident (JStr kind) JUndefined)
      else Some JNull)"

subsection \<open>The session mapper\<close>

text \<open>
  The \<^verbatim>\<open>try\<close> block of \<^verbatim>\<open>_mapSessionToCard(session)\<close>, lines 58 to 99. The first read
  of \<^verbatim>\<open>session\<close> throws when the session is \<^verbatim>\<open>null\<close> or \<^verbatim>\<open>undefined\<close>; after it, and
  on \<^verbatim>\<open>item\<close>, \<^verbatim>\<open>ps\<close> and \<^verbatim>\<open>user\<close> (each truthy), a read cannot throw.
\<close>

definition mapSessionToCard_try :: "jsval \<Rightarrow> jsval option" where
  "mapSessionToCard_try session =
     do {
       npi \<leftarrow> read_prop session ''NowPlayingItem'';
       let item = js_or npi (JObj []);
       let ps = js_or (get_prop session ''PlayState'') (JObj []);
       let user = js_or (get_prop session ''User'') (JObj []);
       t \<leftarrow> ticksToMs (get_prop ps ''PositionTicks'');
       let posMs = js_or t (if \<not> nullish (get_prop ps ''Position'')
                            then get_prop ps ''Position'' else JNull);
       runtime \<leftarrow> (if truthy (get_prop item ''RunTimeTicks'')
                    then ticksToMs (get_prop item ''RunTimeTicks'')
                    else Some (js_or (get_prop item ''RunTime'') JNull));
       mediaType \<leftarrow> toLowerCase (js_or (get_prop item ''Type'') (JStr []));
       percent \<leftarrow> progressPercent runtime posMs;
       let clientName = js_and (get_prop session ''Client'')
                               (get_prop (get_prop session ''Client'') ''Name'');
       posterUrl \<leftarrow> image_or_null (get_prop item ''Id'') ''Primary'';
       backdropUrl \<leftarrow> image_or_null (get_prop item ''Id'') ''Backdrop'';
       let fields =
         [(''title'', js_or (get_prop item ''Name'') (JStr [])),
          (''mediaType'', mediaType),
          (''seriesTitle'', js_or (get_prop item ''SeriesName'') JNull),
          (''episodeName'', js_or (get_prop item ''Name'') JNull),
          (''season'', js_or (get_prop item ''ParentIndexNumber'') JNull),
          (''episode'', js_or (get_prop item ''IndexNumber'') JNull),
          (''runtimeMs'', runtime),
          (''progressMs'', posMs),
          (''progressPercent'', percent),
          (''playerName'', js_or (js_or (get_prop session ''DeviceName'') clientName) JNull),
          (''playerIP'', js_or (get_prop session ''RemoteEndPoint'') JNull),
          (''playerDevice'',
             js_or (js_or (js_and (get_prop session ''Device'') (get_prop session ''Device''))
                          clientName) JNull),
          (''itemId'', js_or (get_prop item ''Id'') JNull),
          (''sessionId'', js_or (get_prop session ''Id'') JNull),
          (''userId'',
             js_or (js_or (get_prop session ''UserId'') (js_and user (get_prop user ''Id'')))
                   JNull),
          (''posterUrl'', posterUrl),
          (''backdropUrl'', backdropUrl),
          (''__raw'', session)];
       let fields = set_field fields ''progress'' (get_prop (JObj fields) ''progressPercent'');
       let fields = set_field fields ''theme'' (theme_of (get_prop item ''Type''));
       Some (JObj fields)
     }"

text \<open>\<^verbatim>\<open>_mapSessionToCard(session)\<close>, lines 56 to 103: \<^verbatim>\<open>null\<close> when the block throws.\<close>

definition mapSessionToCard :: "jsval \<Rightarrow> jsval" where
  "mapSessionToCard session =
     (case mapSessionToCard_try session of None \<Rightarrow> JNull | Some c \<Rightarrow> c)"

subsection \<open>The item mapper\<close>

text \<open>
  The arrow function of lines 173 to 197, which \<^verbatim>\<open>GetOnDemand\<close> maps over the items.
  It has no \<^verbatim>\<open>try\<close> of its own: an exception leaves \<^verbatim>\<open>GetOnDemand\<close>'s block.
\<close>

definition mapItemToCard :: "jsval \<Rightarrow> jsval option" where
  "mapItemToCard it =
     do {
       rtt \<leftarrow> read_prop it ''RunTimeTicks'';
       runtime \<leftarrow> (if truthy rtt then ticksToMs rtt
                    else Some (js_or (get_prop it ''RunTime'') JNull));
       let ud = get_prop it ''UserData'';
       let playState = js_and ud (get_prop ud ''PlayState'');
       resumeMs \<leftarrow> (if truthy (js_and ud (get_prop ud ''PlaybackPositionTicks''))
                     then ticksToMs (get_prop ud ''PlaybackPositionTicks'')
                     else Some (if truthy (js_and playState (get_prop playState ''Position''))
                                then get_prop (get_prop ud ''PlayState'') ''Position''
                                else JNull));
       mediaType \<leftarrow> toLowerCase (js_or (get_prop it ''Type'') (JStr []));
       posterUrl \<leftarrow> image_or_null (get_prop it ''Id'') ''Primary'';
       backdropUrl \<leftarrow> image_or_null (get_prop it ''Id'') ''Backdrop'';
       percent \<leftarrow> progressPercent runtime resumeMs;
       Some (JObj
         [(''title'', js_or (get_prop it ''Name'') (JStr [])),
          (''mediaType'', mediaType),
          (''seriesTitle'', js_or (get_prop it ''SeriesName'') JNull),
          (''episodeName'', js_or (get_prop it ''Name'') JNull),
          (''season'', js_or (get_prop it ''ParentIndexNumber'') JNull),
          (''episode'', js_or (get_prop it ''IndexNumber'') JNull),
          (''itemId'', js_or (get_prop it ''Id'') JNull),
          (''posterUrl'', posterUrl),
          (''backdropUrl'', backdropUrl),
          (''runtimeMs'', runtime),
          (''resumePositionMs'', resumeMs),
          (''resumePercent'', percent),
          (''theme'', theme_of (get_prop it ''Type'')),
          (''userId'',
             if truthy (js_and ud (get_prop ud ''LastPlayedUserId''))
             then get_prop ud ''LastPlayedUserId'' else JNull),
          (''__raw'', it)])
     }"

subsection \<open>The instance and its HTTP client\<close>

text \<open>
  A request is the path and the \<^verbatim>\<open>params\<close> of a \<^verbatim>\<open>this.client.get\<close> call
  (\<^verbatim>\<open>undefined\<close> when the call gives none). The client answers a request with the
  \<^verbatim>\<open>data\<close> of the response, or fails (a network error, the timeout of 8 seconds, a
  status outside 2xx): the awaited promise rejects, which is an exception at the
  \<^verbatim>\<open>await\<close>. Of the instance, the pipelines read \<^verbatim>\<open>userId\<close> and \<^verbatim>\<open>client\<close>.
\<close>

datatype request = Request string jsval

fun request_params :: "request \<Rightarrow> jsval" where
  "request_params (Request path params) = params"

record jellyfin =
  userId :: jsval
  client :: "request \<Rightarrow> jsval option"

subsection \<open>GetNowScreening\<close>

text \<open>
  \<^verbatim>\<open>GetNowScreening(..., hideUser, excludeLibraries)\<close>, lines 112 to 137. Of its nine
  parameters the body uses \<^verbatim>\<open>hideUser\<close>; \<^verbatim>\<open>excludeLibraries\<close> is only tested by an
  \<^verbatim>\<open>if\<close> whose block is empty. The result is the list of requests made and the value
  the promise resolves to.
\<close>

definition sessions_request :: request where
  "sessions_request = Request ''/Sessions'' JUndefined"

definition GetNowScreening_try :: "jellyfin \<Rightarrow> jsval \<Rightarrow> jsval option" where
  "GetNowScreening_try self hideUser =
     do {
       data \<leftarrow> client self sessions_request;
       let sessions = js_or data (JArr []);
       mapped \<leftarrow> array_map (\<lambda>s. Some (mapSessionToCard s)) sessions;
       let cards = filter (\<lambda>c. c \<noteq> JNull) mapped;
       let cards = (if hideUser = JBool True \<or> hideUser = JStr ''true''
                    then map (\<lambda>c. delete_prop c ''userId'') cards else cards);
       Some (JArr cards)
     }"

definition GetNowScreening :: "jellyfin \<Rightarrow> jsval \<Rightarrow> request list \<times> jsval" where
  "GetNowScreening self hideUser =
     ([sessions_request],
      case GetNowScreening_try self hideUser of None \<Rightarrow> JArr [] | Some cards \<Rightarrow> cards)"

subsection \<open>GetOnDemand\<close>

text \<open>
  Lines 148 and 149: the default \<^verbatim>\<open>numberOnDemand = 20\<close> of an \<^verbatim>\<open>undefined\<close> argument,
  and \<^verbatim>\<open>Math.min(200, Number(numberOnDemand) || 30)\<close>. The line stands before the
  \<^verbatim>\<open>try\<close>: an exception of \<^verbatim>\<open>Number\<close> rejects the promise.
\<close>

definition onDemand_limit :: "jsval \<Rightarrow> jsnum option" where
  "onDemand_limit numberOnDemand =
     do {
       n \<leftarrow> ToNumber (if numberOnDemand = JUndefined then JNum (Fin 20) else numberOnDemand);
       Some (js_min (Fin 200) (if truthy (JNum n) then n else Fin 30))
     }"

text \<open>
  The expression of lines 157 and 169:
  \<^verbatim>\<open>(data && data.Items) ? data.Items : (data || [])\<close>, and the test of line 161,
  \<^verbatim>\<open>!items || items.length === 0\<close>.
\<close>

definition items_of :: "jsval \<Rightarrow> jsval" where
  "items_of data =
     (if truthy (js_and data (get_prop data ''Items'')) then get_prop data ''Items''
      else js_or data (JArr []))"

definition no_items :: "jsval \<Rightarrow> bool" where
  "no_items items = (\<not> truthy items \<or> get_prop items ''length'' = JNum (Fin 0))"

definition limit_params :: "jsnum \<Rightarrow> jsval" where
  "limit_params limit = JObj [(''Limit'', JNum limit)]"

definition latest_request :: "jsnum \<Rightarrow> request" where
  "latest_request limit = Request ''/Items/Latest'' (limit_params limit)"

text \<open>The request of line 156; the path cannot be built when the conversion of the user id to a string throws.\<close>

definition resume_request :: "jellyfin \<Rightarrow> jsnum \<Rightarrow> request option" where
  "resume_request self limit =
     map_option (\<lambda>u. Request (''/Users/'' @ u @ ''/Items/Resume'') (limit_params limit))
       (encodeURIComponent (userId self))"

text \<open>Lines 173 to 200: the items mapped to cards, and the first \<^verbatim>\<open>limit\<close> of them.\<close>

definition cards_of :: "jsval \<Rightarrow> jsnum \<Rightarrow> jsval option" where
  "cards_of items limit =
     do {
       cards \<leftarrow> array_map mapItemToCard (js_or items (JArr []));
       Some (JArr (slice0 cards limit))
     }"

text \<open>
  The \<^verbatim>\<open>try\<close> block, lines 152 to 200, in three steps: the resume fetch (lines 154 to
  158), the fallback fetch (lines 161 to 170), and the mapping. Each step gives the
  requests made so far and, unless an exception ended the block, the items.
\<close>

definition resume_step :: "jellyfin \<Rightarrow> jsnum \<Rightarrow> request list \<times> jsval option" where
  "resume_step self limit =
     (if truthy (userId self)
      then (case resume_request self limit of
              None \<Rightarrow> ([], None)
            | Some req \<Rightarrow> ([req], map_option items_of (client self req)))
      else ([], Some (JArr [])))"

definition latest_step ::
  "jellyfin \<Rightarrow> jsnum \<Rightarrow> request list \<times> jsval option \<Rightarrow> request list \<times> jsval option" where
  "latest_step self limit st =
     (case st of
        (reqs, None) \<Rightarrow> (reqs, None)
      | (reqs, Some items) \<Rightarrow>
          if no_items items \<and> truthy (js_or (userId self) (JBool True))
          then (reqs @ [latest_request limit],
                map_option items_of (client self (latest_request limit)))
          else (reqs, Some items))"

definition GetOnDemand_try :: "jellyfin \<Rightarrow> jsnum \<Rightarrow> request list \<times> jsval option" where
  "GetOnDemand_try self limit =
     (case latest_step self limit (resume_step self limit) of
        (reqs, None) \<Rightarrow> (reqs, None)
      | (reqs, Some items) \<Rightarrow> (reqs, cards_of items limit))"

text \<open>
  \<^verbatim>\<open>GetOnDemand(libraries, numberOnDemand = 20, ...)\<close>, lines 148 to 204; of its eight
  parameters the body uses \<^verbatim>\<open>numberOnDemand\<close>. \<open>None\<close> is the rejected promise.
\<close>

definition GetOnDemand :: "jellyfin \<Rightarrow> jsval \<Rightarrow> (request list \<times> jsval) option" where
  "GetOnDemand self numberOnDemand =
     do {
       limit \<leftarrow> onDemand_limit numberOnDemand;
       Some (case GetOnDemand_try self limit of
               (reqs, None) \<Rightarrow> (reqs, JArr [])
             | (reqs, Some cards) \<Rightarrow> (reqs, cards))
     }"

section \<open>The specification's words, and example records\<close>





text \<open>
  The session of the specification's end-to-end example (with a user id added), an item
  with the same fields, and the cards the mappers make of them.
\<close>

definition example_session :: jsval where
  "example_session =
     JObj [(''NowPlayingItem'',
              JObj [(''Id'', JStr ''42''), (''Name'', JStr ''X''), (''Type'', JStr ''Movie''),
                    (''RunTimeTicks'', JNum (Fin 600000000))]),
           (''PlayState'', JObj [(''PositionTicks'', JNum (Fin 300000000))]),
           (''UserId'', JStr ''u7'')]"

definition example_session_card :: "(string \<times> jsval) list" where
  "example_session_card =
     [(''title'', JStr ''X''), (''mediaType'', JStr ''movie''), (''seriesTitle'', JNull),
      (''episodeName'', JStr ''X''), (''season'', JNull), (''episode'', JNull),
      (''runtimeMs'', JNum (Fin 60000)), (''progressMs'', JNum (Fin 30000)),
      (''progressPercent'', JNum (Fin 50)), (''playerName'', JNull), (''playerIP'', JNull),
      (''playerDevice'', JNull), (''itemId'', JStr ''42''), (''sessionId'', JNull),
      (''userId'', JStr ''u7''),
      (''posterUrl'', JStr ''/jellyfin/image/42?type=Primary''),
      (''backdropUrl'', JStr ''/jellyfin/image/42?type=Backdrop''),
      (''__raw'', example_session), (''progress'', JNum (Fin 50)),
      (''theme'', JStr ''movie'')]"

definition example_item :: jsval where
  "example_item =
     JObj [(''Id'', JStr ''42''), (''Name'', JStr ''X''), (''Type'', JStr ''Movie''),
           (''RunTimeTicks'', JNum (Fin 600000000)),
           (''UserData'', JObj [(''PlaybackPositionTicks'', JNum (Fin 300000000))])]"

definition example_item_card :: "(string \<times> jsval) list" where
  "example_item_card =
     [(''title'', JStr ''X''), (''mediaType'', JStr ''movie''), (''seriesTitle'', JNull),
      (''episodeName'', JStr ''X''), (''season'', JNull), (''episode'', JNull),
      (''itemId'', JStr ''42''),
      (''posterUrl'', JStr ''/jellyfin/image/42?type=Primary''),
      (''backdropUrl'', JStr ''/jellyfin/image/42?type=Backdrop''),
      (''runtimeMs'', JNum (Fin 60000)), (''resumePositionMs'', JNum (Fin 30000)),
      (''resumePercent'', JNum (Fin 50)), (''theme'', JStr ''movie''), (''userId'', JNull),
      (''__raw'', example_item)]"

text \<open>
  A server whose user has nothing to resume and whose library has three recent items,
  and one whose resume endpoint fails while the recently-added endpoint works.
\<close>

definition example_client :: "request \<Rightarrow> jsval option" where
  "example_client r =
     (case r of Request path params \<Rightarrow>
        if path = ''/Sessions'' then Some (JArr [example_session, JNull])
        else if path = ''/Users/u7/Items/Resume'' then Some (JObj [(''Items'', JArr [])])
        else if path = ''/Items/Latest'' then Some (JArr [example_item, example_item, example_item])
        else None)"

definition example_server :: jellyfin where
  "example_server = \<lparr>userId = JStr ''u7'', client = example_client\<rparr>"

definition failing_client :: "request \<Rightarrow> jsval option" where
  "failing_client r =
     (case r of Request path params \<Rightarrow>
        if path = ''/Items/Latest'' then Some (JArr [example_item]) else None)"

definition failing_server :: jellyfin where
  "failing_server = \<lparr>userId = JStr ''u7'', client = failing_client\<rparr>"

text \<open>
  The effective count as the specification words it: the count clamped to the range from
  0 to 200, and 30 when the count is unspecified or not a number.
\<close>

definition count_spec :: "jsval \<Rightarrow> jsnum" where
  "count_spec count =
     (if count = JUndefined then Fin 30
      else case ToNumber count of
             Some (Fin q) \<Rightarrow> Fin (max 0 (min 200 q))
           | Some PInf \<Rightarrow> Fin 200
           | Some NInf \<Rightarrow> Fin 0
           | _ \<Rightarrow> Fin 30)"

section \<open>Properties\<close>

subsection \<open>Ticks to milliseconds\<close>

lemma StringToNumber_abc: "StringToNumber ''abc'' = NaN"
  by code_simp



subsection \<open>The fields of a card\<close>

lemma example_session_maps: "mapSessionToCard example_session = JObj example_session_card"
  by code_simp

lemma example_item_maps: "mapItemToCard example_item = Some (JObj example_item_card)"
  by code_simp

lemma session_card_fields:
  assumes "mapSessionToCard_try s = Some c"
  shows "\<exists>kvs. c = JObj kvs"
    and "\<not> nullish s"
    and "progressPercent (get_prop c ''runtimeMs'') (get_prop c ''progressMs'')
           = Some (get_prop c ''progressPercent'')"
    and "get_prop c ''theme''
           = theme_of (get_prop (js_or (get_prop s ''NowPlayingItem'') (JObj [])) ''Type'')"
    and "toLowerCase (js_or (get_prop (js_or (get_prop s ''NowPlayingItem'') (JObj [])) ''Type'')
                            (JStr []))
           = Some (get_prop c ''mediaType'')"
  using assms
  by (auto simp: mapSessionToCard_try_def read_prop_def Let_def split: bind_splits if_splits)

lemma item_card_fields:
  assumes "mapItemToCard it = Some c"
  shows "\<exists>kvs. c = JObj kvs"
    and "\<not> nullish it"
    and "progressPercent (get_prop c ''runtimeMs'') (get_prop c ''resumePositionMs'')
           = Some (get_prop c ''resumePercent'')"
    and "get_prop c ''theme'' = theme_of (get_prop it ''Type'')"
    and "toLowerCase (js_or (get_prop it ''Type'') (JStr [])) = Some (get_prop c ''mediaType'')"
  using assms
  by (auto simp: mapItemToCard_def read_prop_def Let_def split: bind_splits if_splits)

lemma mapSessionToCard_Some:
  "mapSessionToCard s = JObj kvs \<Longrightarrow> mapSessionToCard_try s = Some (JObj kvs)"
  by (auto simp: mapSessionToCard_def split: option.splits)

subsection \<open>The percentage\<close>





subsection \<open>The theme\<close>

lemma toLowerCase_Movie: "toLowerCase (JStr ''Movie'') = Some (JStr ''movie'')"
  by code_simp

lemma toLowerCase_Episode: "toLowerCase (JStr ''Episode'') = Some (JStr ''episode'')"
  by code_simp

lemma theme_rule:
  assumes "toLowerCase (js_or t (JStr [])) = Some m"
  shows "(theme_of t = JStr ''movie'') = (t = JStr ''Movie'')
    \<and> (theme_of t = JStr ''episode'') = (t = JStr ''Episode'')
    \<and> (theme_of t = JStr []) = (t \<noteq> JStr ''Movie'' \<and> t \<noteq> JStr ''Episode'')
    \<and> (theme_of t \<noteq> JStr [] \<longrightarrow> theme_of t = m)"
proof -
  consider "t = JStr ''Movie''" | "t = JStr ''Episode''"
    | "t \<noteq> JStr ''Movie'' \<and> t \<noteq> JStr ''Episode''"
    by blast
  then show ?thesis
  proof cases
    case 1
    with assms have "m = JStr ''movie''"
      by (simp add: js_or_def toLowerCase_Movie del: toLowerCase.simps)
    with 1 show ?thesis by (simp add: theme_of_def)
  next
    case 2
    with assms have "m = JStr ''episode''"
      by (simp add: js_or_def toLowerCase_Episode del: toLowerCase.simps)
    with 2 show ?thesis by (simp add: theme_of_def)
  next
    case 3
    then show ?thesis by (simp add: theme_of_def)
  qed
qed

lemma lowercase_type_session:
  "get_prop (mapSessionToCard (JObj [(''NowPlayingItem'', JObj [(''Type'', JStr ''movie'')])]))
     ''mediaType'' = JStr ''movie''
   \<and> get_prop (mapSessionToCard (JObj [(''NowPlayingItem'', JObj [(''Type'', JStr ''movie'')])]))
     ''theme'' = JStr []"
  by code_simp

text \<open>
  Claim C10. In a card of either mapper the theme is \<^verbatim>\<open>movie\<close> exactly when the upstream
  \<^verbatim>\<open>Type\<close> is the string \<^verbatim>\<open>Movie\<close>, \<^verbatim>\<open>episode\<close> exactly when it is \<^verbatim>\<open>Episode\<close>, and
  empty otherwise; so a theme that is not empty equals \<^verbatim>\<open>mediaType\<close>, and the upstream
  type \<^verbatim>\<open>movie\<close> gives a card with the media type \<^verbatim>\<open>movie\<close> and an empty theme.
\<close>

theorem theme_of_cards:
  "(mapSessionToCard session = JObj c \<longrightarrow>
      (let t = get_prop (js_or (get_prop session ''NowPlayingItem'') (JObj [])) ''Type'';
           theme = get_prop (JObj c) ''theme''
       in (theme = JStr ''movie'') = (t = JStr ''Movie'')
          \<and> (theme = JStr ''episode'') = (t = JStr ''Episode'')
          \<and> (theme = JStr []) = (t \<noteq> JStr ''Movie'' \<and> t \<noteq> JStr ''Episode'')
          \<and> (theme \<noteq> JStr [] \<longrightarrow> theme = get_prop (JObj c) ''mediaType'')))
   \<and> (mapItemToCard it = Some (JObj d) \<longrightarrow>
      (let t = get_prop it ''Type'';
           theme = get_prop (JObj d) ''theme''
       in (theme = JStr ''movie'') = (t = JStr ''Movie'')
          \<and> (theme = JStr ''episode'') = (t = JStr ''Episode'')
          \<and> (theme = JStr []) = (t \<noteq> JStr ''Movie'' \<and> t \<noteq> JStr ''Episode'')
          \<and> (theme \<noteq> JStr [] \<longrightarrow> theme = get_prop (JObj d) ''mediaType'')))
   \<and> get_prop (mapSessionToCard (JObj [(''NowPlayingItem'', JObj [(''Type'', JStr ''movie'')])]))
        ''mediaType'' = JStr ''movie''
   \<and> get_prop (mapSessionToCard (JObj [(''NowPlayingItem'', JObj [(''Type'', JStr ''movie'')])]))
        ''theme'' = JStr []"
proof -
  have s: "mapSessionToCard session = JObj c \<longrightarrow>
      (let t = get_prop (js_or (get_prop session ''NowPlayingItem'') (JObj [])) ''Type'';
           theme = get_prop (JObj c) ''theme''
       in (theme = JStr ''movie'') = (t = JStr ''Movie'')
          \<and> (theme = JStr ''episode'') = (t = JStr ''Episode'')
          \<and> (theme = JStr []) = (t \<noteq> JStr ''Movie'' \<and> t \<noteq> JStr ''Episode'')
          \<and> (theme \<noteq> JStr [] \<longrightarrow> theme = get_prop (JObj c) ''mediaType''))"
  proof
    assume "mapSessionToCard session = JObj c"
    then have m: "mapSessionToCard_try session = Some (JObj c)"
      by (rule mapSessionToCard_Some)
    show "let t = get_prop (js_or (get_prop session ''NowPlayingItem'') (JObj [])) ''Type'';
           theme = get_prop (JObj c) ''theme''
       in (theme = JStr ''movie'') = (t = JStr ''Movie'')
          \<and> (theme = JStr ''episode'') = (t = JStr ''Episode'')
          \<and> (theme = JStr []) = (t \<noteq> JStr ''Movie'' \<and> t \<noteq> JStr ''Episode'')
          \<and> (theme \<noteq> JStr [] \<longrightarrow> theme = get_prop (JObj c) ''mediaType'')"
      unfolding Let_def session_card_fields(4) [OF m]
      using theme_rule [OF session_card_fields(5) [OF m]] by blast
  qed
  have i: "mapItemToCard it = Some (JObj d) \<longrightarrow>
      (let t = get_prop it ''Type'';
           theme = get_prop (JObj d) ''theme''
       in (theme = JStr ''movie'') = (t = JStr ''Movie'')
          \<and> (theme = JStr ''episode'') = (t = JStr ''Episode'')
          \<and> (theme = JStr []) = (t \<noteq> JStr ''Movie'' \<and> t \<noteq> JStr ''Episode'')
          \<and> (theme \<noteq> JStr [] \<longrightarrow> theme = get_prop (JObj d) ''mediaType''))"
  proof
    assume m: "mapItemToCard it = Some (JObj d)"
    show "let t = get_prop it ''Type'';
           theme = get_prop (JObj d) ''theme''
       in (theme = JStr ''movie'') = (t = JStr ''Movie'')
          \<and> (theme = JStr ''episode'') = (t = JStr ''Episode'')
          \<and> (theme = JStr []) = (t \<noteq> JStr ''Movie'' \<and> t \<noteq> JStr ''Episode'')
          \<and> (theme \<noteq> JStr [] \<longrightarrow> theme = get_prop (JObj d) ''mediaType'')"
      unfolding Let_def item_card_fields(4) [OF m]
      using theme_rule [OF item_card_fields(5) [OF m]] by blast
  qed
  from s i lowercase_type_session show ?thesis by blast
qed

theorem theme_of_cards_witness:
  "mapSessionToCard example_session = JObj example_session_card
   \<and> get_prop example_session ''NowPlayingItem'' \<noteq> JUndefined
   \<and> get_prop (JObj example_session_card) ''theme'' = JStr ''movie''
   \<and> get_prop (JObj example_session_card) ''mediaType'' = JStr ''movie''
   \<and> mapItemToCard example_item = Some (JObj example_item_card)
   \<and> get_prop example_item ''Type'' = JStr ''Movie''
   \<and> get_prop (JObj example_item_card) ''theme'' = JStr ''movie''
   \<and> get_prop (JObj example_item_card) ''mediaType'' = JStr ''movie''"
  using theme_of_cards [of example_session example_session_card example_item example_item_card]
  by (simp add: example_session_maps example_item_maps)
     (simp add: example_session_card_def example_item_card_def example_session_def example_item_def)

subsection \<open>Sessions without an item, and sessions that are not objects\<close>

lemma ticksToMs_total: "ToNumber v \<noteq> None \<Longrightarrow> \<exists>x. ticksToMs v = Some x"
  by (auto simp: ticksToMs_def)

lemma toLowerCase_None: "truthy t \<Longrightarrow> \<forall>s. t \<noteq> JStr s \<Longrightarrow> toLowerCase (js_or t (JStr [])) = None"
  by (cases t) (simp_all add: js_or_def)

lemma bad_type_throws:
  "toLowerCase (js_or (get_prop (js_or (get_prop session ''NowPlayingItem'') (JObj [])) ''Type'')
                      (JStr [])) = None
   \<Longrightarrow> mapSessionToCard_try session = None"
  by (simp add: mapSessionToCard_try_def read_prop_def Let_def split: bind_splits)

text \<open>
  Claim C7, amended. \<^verbatim>\<open>_mapSessionToCard\<close> applied to a session other than \<^verbatim>\<open>null\<close> and
  \<^verbatim>\<open>undefined\<close> that has no now-playing item, and whose position ticks \<^verbatim>\<open>Number\<close>
  converts without an exception, returns a card with an empty title and the item id
  \<^verbatim>\<open>null\<close>. Applied to \<^verbatim>\<open>null\<close> or \<^verbatim>\<open>undefined\<close>, or to a session whose item has a
  \<^verbatim>\<open>Type\<close> that is truthy and not a string, it returns \<^verbatim>\<open>null\<close>: the exception stays inside.
\<close>

theorem mapSessionToCard_missing_item:
  "(\<not> nullish session \<and> \<not> truthy (get_prop session ''NowPlayingItem'')
      \<and> ToNumber (get_prop (js_or (get_prop session ''PlayState'') (JObj [])) ''PositionTicks'') \<noteq> None
    \<longrightarrow> (\<exists>c. mapSessionToCard session = JObj c
             \<and> get_prop (JObj c) ''title'' = JStr []
             \<and> get_prop (JObj c) ''itemId'' = JNull))
   \<and> (nullish session \<longrightarrow> mapSessionToCard session = JNull)
   \<and> (truthy (get_prop (js_or (get_prop session ''NowPlayingItem'') (JObj [])) ''Type'')
        \<and> (\<forall>s. get_prop (js_or (get_prop session ''NowPlayingItem'') (JObj [])) ''Type'' \<noteq> JStr s)
    \<longrightarrow> mapSessionToCard session = JNull)"
proof (intro conjI impI)
  assume a: "\<not> nullish session \<and> \<not> truthy (get_prop session ''NowPlayingItem'')
      \<and> ToNumber (get_prop (js_or (get_prop session ''PlayState'') (JObj [])) ''PositionTicks'') \<noteq> None"
  then obtain x where x: "ticksToMs (get_prop (js_or (get_prop session ''PlayState'') (JObj [])) ''PositionTicks'') = Some x"
    using ticksToMs_total by blast
  have item: "js_or (get_prop session ''NowPlayingItem'') (JObj []) = JObj []"
    using a by (simp add: js_or_def)
  have "\<exists>c. mapSessionToCard_try session = Some (JObj c)
             \<and> get_prop (JObj c) ''title'' = JStr []
             \<and> get_prop (JObj c) ''itemId'' = JNull"
    using a x
    by (simp add: mapSessionToCard_try_def read_prop_def item Let_def progressPercent_def
        image_or_null_def js_or_def js_and_def)
  then show "\<exists>c. mapSessionToCard session = JObj c
             \<and> get_prop (JObj c) ''title'' = JStr []
             \<and> get_prop (JObj c) ''itemId'' = JNull"
    by (auto simp: mapSessionToCard_def)
next
  assume "nullish session"
  then show "mapSessionToCard session = JNull"
    by (simp add: mapSessionToCard_def mapSessionToCard_try_def read_prop_def)
next
  assume "truthy (get_prop (js_or (get_prop session ''NowPlayingItem'') (JObj [])) ''Type'')
        \<and> (\<forall>s. get_prop (js_or (get_prop session ''NowPlayingItem'') (JObj [])) ''Type'' \<noteq> JStr s)"
  then have "mapSessionToCard_try session = None"
    by (intro bad_type_throws toLowerCase_None) simp_all
  then show "mapSessionToCard session = JNull"
    by (simp add: mapSessionToCard_def)
qed

theorem mapSessionToCard_missing_item_witness:
  "\<not> nullish (JObj [(''DeviceName'', JStr ''TV'')])
   \<and> \<not> truthy (get_prop (JObj [(''DeviceName'', JStr ''TV'')]) ''NowPlayingItem'')
   \<and> ToNumber (get_prop (js_or (get_prop (JObj [(''DeviceName'', JStr ''TV'')]) ''PlayState'') (JObj []))
         ''PositionTicks'') \<noteq> None
   \<and> (\<exists>c. mapSessionToCard (JObj [(''DeviceName'', JStr ''TV'')]) = JObj c
          \<and> get_prop (JObj c) ''title'' = JStr []
          \<and> get_prop (JObj c) ''itemId'' = JNull)
   \<and> nullish JNull
   \<and> mapSessionToCard JNull = JNull
   \<and> truthy (get_prop (js_or (get_prop (JObj [(''NowPlayingItem'', JObj [(''Type'', JNum (Fin 7))])])
                                        ''NowPlayingItem'') (JObj [])) ''Type'')
   \<and> mapSessionToCard (JObj [(''NowPlayingItem'', JObj [(''Type'', JNum (Fin 7))])]) = JNull"
  using mapSessionToCard_missing_item [of "JObj [(''DeviceName'', JStr ''TV'')]"]
    mapSessionToCard_missing_item [of JNull]
    mapSessionToCard_missing_item [of "JObj [(''NowPlayingItem'', JObj [(''Type'', JNum (Fin 7))])]"]
  by (simp add: nullish_def js_or_def)

text \<open>
  Claim C7 as stated fails: a session that is not an object but a number or a string is
  mapped to a card, not to \<^verbatim>\<open>null\<close>; and a session object without a now-playing item
  is mapped to \<^verbatim>\<open>null\<close> when its position ticks are an object whose own \<^verbatim>\<open>toString\<close>
  is not a function.
\<close>

theorem mapSessionToCard_not_object_counterexample:
  "mapSessionToCard (JNum (Fin 5)) \<noteq> JNull
   \<and> get_prop (mapSessionToCard (JNum (Fin 5))) ''title'' = JStr []
   \<and> mapSessionToCard (JStr ''abc'') \<noteq> JNull
   \<and> mapSessionToCard
        (JObj [(''PlayState'', JObj [(''PositionTicks'', JObj [(''toString'', JNull)])])]) = JNull"
  by code_simp

subsection \<open>The position of a session card\<close>

text \<open>
  Claim C8, at the failing input. With position ticks of 0 the card's \<^verbatim>\<open>progressMs\<close> is
  the raw \<^verbatim>\<open>Position\<close> when there is one, and \<^verbatim>\<open>null\<close> when there is none, although
  \<^verbatim>\<open>_ticksToMs(0)\<close> is 0: line 61 joins the two with \<^verbatim>\<open>||\<close>, which drops a zero.
\<close>

theorem progressMs_zero_ticks:
  "get_prop (mapSessionToCard
      (JObj [(''PlayState'', JObj [(''PositionTicks'', JNum (Fin 0)), (''Position'', JNum (Fin 5000))])]))
     ''progressMs'' = JNum (Fin 5000)
   \<and> get_prop (mapSessionToCard (JObj [(''PlayState'', JObj [(''PositionTicks'', JNum (Fin 0))])]))
     ''progressMs'' = JNull
   \<and> ticksToMs (JNum (Fin 0)) = Some (JNum (Fin 0))"
  by code_simp

subsection \<open>Image references\<close>

text \<open>
  Claim C9, at the failing input. With a size hint \<^verbatim>\<open>_imageUrl\<close> appends
  \<^verbatim>\<open>?maxWidth=300\<close>, a second question mark, where the comment of line 49 and the claim
  have \<^verbatim>\<open>&maxWidth=300\<close>.
\<close>

theorem imageUrl_maxWidth:
  "imageUrl (JStr ''42'') (JStr ''Primary'') (JNum (Fin 300))
     = Some ''/jellyfin/image/42?type=Primary?maxWidth=300''"
  by code_simp

subsection \<open>GetNowScreening\<close>

lemma mapSessionToCard_shape: "mapSessionToCard s = JNull \<or> (\<exists>kvs. mapSessionToCard s = JObj kvs)"
  using session_card_fields(1) [of s] by (cases "mapSessionToCard_try s") (auto simp: mapSessionToCard_def)

lemma map_opt_Some: "map_opt (\<lambda>x. Some (f x)) xs = Some (map f xs)"
  by (induction xs) simp_all

lemma map_of_filter_other:
  "k \<noteq> k0 \<Longrightarrow> map_of (filter (\<lambda>kv. fst kv \<noteq> k0) kvs) k = map_of kvs k"
  by (induction kvs) auto


lemma GetNowScreening_failure:
  "client self sessions_request = None \<Longrightarrow> snd (GetNowScreening self h) = JArr []"
  by (simp add: GetNowScreening_def GetNowScreening_try_def)

lemma GetNowScreening_cases:
  obtains (empty) "\<And>h. snd (GetNowScreening self h) = JArr []"
  | (sessions) xs where
      "\<And>h. snd (GetNowScreening self h) =
         JArr (if h = JBool True \<or> h = JStr ''true''
               then map (\<lambda>c. delete_prop c ''userId'') (filter (\<lambda>c. c \<noteq> JNull) (map mapSessionToCard xs))
               else filter (\<lambda>c. c \<noteq> JNull) (map mapSessionToCard xs))"
proof (cases "client self sessions_request")
  case None
  then show ?thesis using empty by (simp add: GetNowScreening_failure)
next
  case (Some d)
  show ?thesis
  proof (cases "js_or d (JArr [])")
    case (JArr xs)
    with Some have "\<And>h. snd (GetNowScreening self h) =
         JArr (if h = JBool True \<or> h = JStr ''true''
               then map (\<lambda>c. delete_prop c ''userId'') (filter (\<lambda>c. c \<noteq> JNull) (map mapSessionToCard xs))
               else filter (\<lambda>c. c \<noteq> JNull) (map mapSessionToCard xs))"
      by (simp add: GetNowScreening_def GetNowScreening_try_def map_opt_Some)
    then show ?thesis by (rule sessions)
  qed (use Some empty in \<open>simp_all add: GetNowScreening_def GetNowScreening_try_def\<close>)
qed


text \<open>
  Claim C6. When \<^verbatim>\<open>GetNowScreening\<close> is called with the hide-user flag set (\<^verbatim>\<open>true\<close> or
  the string \<^verbatim>\<open>'true'\<close>), every returned card is an object without the key \<^verbatim>\<open>userId\<close>,
  and every other key of it has the value it has in the card of the same position that
  the same call without the flag returns.
\<close>

theorem hideUser_removes_userId:
  "(hideUser = JBool True \<or> hideUser = JStr ''true'') \<and> other \<noteq> JBool True \<and> other \<noteq> JStr ''true''
   \<longrightarrow> (\<exists>cards cards0.
          snd (GetNowScreening self hideUser) = JArr cards
        \<and> snd (GetNowScreening self other) = JArr cards0
        \<and> list_all2 (\<lambda>c c0. \<exists>kvs kvs0. c = JObj kvs \<and> c0 = JObj kvs0
                           \<and> ''userId'' \<notin> fst ` set kvs
                           \<and> (\<forall>k. k \<noteq> ''userId'' \<longrightarrow> map_of kvs k = map_of kvs0 k))
                    cards cards0)"
proof
  assume a: "(hideUser = JBool True \<or> hideUser = JStr ''true'') \<and> other \<noteq> JBool True \<and> other \<noteq> JStr ''true''"
  show "\<exists>cards cards0.
          snd (GetNowScreening self hideUser) = JArr cards
        \<and> snd (GetNowScreening self other) = JArr cards0
        \<and> list_all2 (\<lambda>c c0. \<exists>kvs kvs0. c = JObj kvs \<and> c0 = JObj kvs0
                           \<and> ''userId'' \<notin> fst ` set kvs
                           \<and> (\<forall>k. k \<noteq> ''userId'' \<longrightarrow> map_of kvs k = map_of kvs0 k))
                    cards cards0"
  proof (rule GetNowScreening_cases [of self])
    assume "\<And>h. snd (GetNowScreening self h) = JArr []"
    then show ?thesis by simp
  next
    fix xs
    define cards0 where "cards0 = filter (\<lambda>c. c \<noteq> JNull) (map mapSessionToCard xs)"
    assume "\<And>h. snd (GetNowScreening self h) =
         JArr (if h = JBool True \<or> h = JStr ''true''
               then map (\<lambda>c. delete_prop c ''userId'') (filter (\<lambda>c. c \<noteq> JNull) (map mapSessionToCard xs))
               else filter (\<lambda>c. c \<noteq> JNull) (map mapSessionToCard xs))"
    with a have r: "snd (GetNowScreening self hideUser) = JArr (map (\<lambda>c. delete_prop c ''userId'') cards0)"
      and r0: "snd (GetNowScreening self other) = JArr cards0"
      by (auto simp: cards0_def)
    have d: "\<exists>kvs kvs0. delete_prop c0 ''userId'' = JObj kvs \<and> c0 = JObj kvs0
                \<and> ''userId'' \<notin> fst ` set kvs
                \<and> (\<forall>k. k \<noteq> ''userId'' \<longrightarrow> map_of kvs k = map_of kvs0 k)"
      if "c0 \<in> set cards0" for c0
    proof -
      from that obtain kvs0 where "c0 = JObj kvs0"
        using mapSessionToCard_shape by (auto simp: cards0_def)
      then show ?thesis by (auto simp: map_of_filter_other)
    qed
    have "list_all2 (\<lambda>c c0. \<exists>kvs kvs0. c = JObj kvs \<and> c0 = JObj kvs0
                           \<and> ''userId'' \<notin> fst ` set kvs
                           \<and> (\<forall>k. k \<noteq> ''userId'' \<longrightarrow> map_of kvs k = map_of kvs0 k))
                    (map (\<lambda>c. delete_prop c ''userId'') cards0) cards0"
      unfolding list_all2_map1
      by (rule list.rel_refl_strong) (rule d)
    with r r0 show ?thesis by blast
  qed
qed

lemma example_now_screening:
  "snd (GetNowScreening example_server (JBool True))
     = JArr [JObj (filter (\<lambda>kv. fst kv \<noteq> ''userId'') example_session_card)]
   \<and> snd (GetNowScreening example_server JUndefined) = JArr [JObj example_session_card]
   \<and> map_of example_session_card ''userId'' = Some (JStr ''u7'')"
  by code_simp

theorem hideUser_removes_userId_witness:
  "(JBool True = JBool True \<or> JBool True = JStr ''true'')
   \<and> JUndefined \<noteq> JBool True \<and> JUndefined \<noteq> JStr ''true''
   \<and> snd (GetNowScreening example_server (JBool True))
       = JArr [JObj (filter (\<lambda>kv. fst kv \<noteq> ''userId'') example_session_card)]
   \<and> snd (GetNowScreening example_server JUndefined) = JArr [JObj example_session_card]
   \<and> map_of example_session_card ''userId'' = Some (JStr ''u7'')
   \<and> (\<exists>cards cards0.
          snd (GetNowScreening example_server (JBool True)) = JArr cards
        \<and> snd (GetNowScreening example_server JUndefined) = JArr cards0
        \<and> list_all2 (\<lambda>c c0. \<exists>kvs kvs0. c = JObj kvs \<and> c0 = JObj kvs0
                           \<and> ''userId'' \<notin> fst ` set kvs
                           \<and> (\<forall>k. k \<noteq> ''userId'' \<longrightarrow> map_of kvs k = map_of kvs0 k))
                    cards cards0)"
  using hideUser_removes_userId [of "JBool True" JUndefined example_server] example_now_screening
  by blast

subsection \<open>GetOnDemand: the limit\<close>

lemma GetOnDemand_limit:
  "onDemand_limit count = Some limit \<Longrightarrow>
   GetOnDemand self count =
     Some (fst (GetOnDemand_try self limit),
           case snd (GetOnDemand_try self limit) of None \<Rightarrow> JArr [] | Some cards \<Rightarrow> cards)"
  by (simp add: GetOnDemand_def split: prod.splits option.splits)

lemma GetOnDemand_rejects: "onDemand_limit count = None \<Longrightarrow> GetOnDemand self count = None"
  by (simp add: GetOnDemand_def)

lemma cards_of_array: "cards_of items limit = Some v \<Longrightarrow> \<exists>cards. v = JArr cards \<and> (\<exists>xs. cards = slice0 xs limit)"
  by (auto simp: cards_of_def split: bind_splits)

lemma try_array:
  "snd (GetOnDemand_try self limit) = Some v \<Longrightarrow> \<exists>xs. v = JArr (slice0 xs limit)"
  using cards_of_array
  by (fastforce simp: GetOnDemand_try_def split: prod.splits option.splits)

lemma try_requests:
  "r \<in> set (fst (GetOnDemand_try self limit)) \<Longrightarrow> request_params r = limit_params limit"
  by (auto simp: GetOnDemand_try_def latest_step_def resume_step_def resume_request_def
      latest_request_def split: prod.splits option.splits if_splits)


lemma slice0_length: "0 \<le> q \<Longrightarrow> of_nat (length (slice0 xs (Fin q))) \<le> q"
proof -
  assume q: "0 \<le> q"
  then have "0 \<le> \<lfloor>q\<rfloor>" by simp
  then have "(of_nat (nat \<lfloor>q\<rfloor>) :: rat) = of_int \<lfloor>q\<rfloor>" by simp
  moreover have "length (slice0 xs (Fin q)) \<le> nat \<lfloor>q\<rfloor>"
    using q by (simp add: slice0_def)
  ultimately have "(of_nat (length (slice0 xs (Fin q))) :: rat) \<le> of_int \<lfloor>q\<rfloor>"
    by (metis of_nat_le_iff)
  then show ?thesis by linarith
qed

lemma js_min_200:
  "js_min (Fin 200) NaN = NaN"
  "js_min (Fin 200) PInf = Fin 200"
  "js_min (Fin 200) NInf = NInf"
  "js_min (Fin 200) (Fin q) = Fin (min 200 q)"
  by (simp_all add: js_min_def min_def)

lemma onDemand_limit_eq:
  "onDemand_limit count =
     (case ToNumber (if count = JUndefined then JNum (Fin 20) else count) of
        None \<Rightarrow> None
      | Some n \<Rightarrow>
          Some (case n of NaN \<Rightarrow> Fin 30 | PInf \<Rightarrow> Fin 200 | NInf \<Rightarrow> NInf
                | Fin q \<Rightarrow> if q = 0 then Fin 30 else Fin (min 200 q)))"
  by (simp add: onDemand_limit_def js_min_200 split: option.splits jsnum.splits)

lemma limit_cases:
  assumes "onDemand_limit count = Some limit"
  shows "limit = NInf \<or> (\<exists>q. limit = Fin q \<and> q \<le> 200 \<and> q \<noteq> 0)"
proof -
  from assms obtain n where
    l: "limit = (case n of NaN \<Rightarrow> Fin 30 | PInf \<Rightarrow> Fin 200 | NInf \<Rightarrow> NInf
                 | Fin q \<Rightarrow> if q = 0 then Fin 30 else Fin (min 200 q))"
    unfolding onDemand_limit_eq by (auto split: option.splits)
  show ?thesis
  proof (cases n)
    case (Fin q)
    then show ?thesis by (simp add: l min_def)
  qed (simp_all add: l)
qed

lemma example_on_demand:
  "GetOnDemand example_server (JNum (Fin 2))
     = Some ([Request ''/Users/u7/Items/Resume'' (JObj [(''Limit'', JNum (Fin 2))]),
              Request ''/Items/Latest'' (JObj [(''Limit'', JNum (Fin 2))])],
             JArr [JObj example_item_card, JObj example_item_card])"
  by code_simp

text \<open>
  Claim C1, amended. The effective count of \<^verbatim>\<open>GetOnDemand\<close> is 20 when the count is
  unspecified, 30 when \<^verbatim>\<open>Number\<close> turns the count into \<^verbatim>\<open>NaN\<close> or into 0, and the
  smaller of 200 and the count's number otherwise: it is at most 200, and nothing clamps
  it from below. Every upstream request carries this limit, and when the limit is not
  negative the returned sequence has at most that many cards.
\<close>

theorem onDemand_limit_and_length:
  "(count = JUndefined \<longrightarrow> onDemand_limit count = Some (Fin 20))
   \<and> (count \<noteq> JUndefined \<and> (ToNumber count = Some NaN \<or> ToNumber count = Some (Fin 0))
      \<longrightarrow> onDemand_limit count = Some (Fin 30))
   \<and> (count \<noteq> JUndefined \<and> ToNumber count = Some n \<and> n \<noteq> NaN \<and> n \<noteq> Fin 0
      \<longrightarrow> onDemand_limit count = Some (js_min (Fin 200) n))
   \<and> (GetOnDemand self count = Some (reqs, res) \<longrightarrow>
        (\<exists>limit cards.
            onDemand_limit count = Some limit
          \<and> js_le limit (Fin 200)
          \<and> (\<forall>r \<in> set reqs. request_params r = JObj [(''Limit'', JNum limit)])
          \<and> res = JArr cards
          \<and> (\<forall>q. limit = Fin q \<and> 0 \<le> q \<longrightarrow> of_nat (length cards) \<le> q)))"
proof -
  have "\<exists>limit cards.
            onDemand_limit count = Some limit
          \<and> js_le limit (Fin 200)
          \<and> (\<forall>r \<in> set reqs. request_params r = JObj [(''Limit'', JNum limit)])
          \<and> res = JArr cards
          \<and> (\<forall>q. limit = Fin q \<and> 0 \<le> q \<longrightarrow> of_nat (length cards) \<le> q)"
    if g: "GetOnDemand self count = Some (reqs, res)"
  proof -
    from g obtain limit where l: "onDemand_limit count = Some limit"
      by (cases "onDemand_limit count") (simp_all add: GetOnDemand_rejects)
    from g GetOnDemand_limit [OF l, of self]
    have reqs: "reqs = fst (GetOnDemand_try self limit)"
      and res: "res = (case snd (GetOnDemand_try self limit) of None \<Rightarrow> JArr [] | Some cards \<Rightarrow> cards)"
      by simp_all
    have le: "js_le limit (Fin 200)"
      using limit_cases [OF l] by auto
    have params: "\<forall>r \<in> set reqs. request_params r = JObj [(''Limit'', JNum limit)]"
      using try_requests [of _ self limit] by (simp add: reqs limit_params_def)
    have "\<exists>cards. res = JArr cards \<and> (\<forall>q. limit = Fin q \<and> 0 \<le> q \<longrightarrow> of_nat (length cards) \<le> q)"
    proof (cases "snd (GetOnDemand_try self limit)")
      case None
      then show ?thesis by (simp add: res)
    next
      case (Some v)
      then obtain xs where "v = JArr (slice0 xs limit)"
        using try_array by blast
      with Some show ?thesis by (auto simp: res slice0_length)
    qed
    with l le params show ?thesis by blast
  qed
  moreover have "count = JUndefined \<longrightarrow> onDemand_limit count = Some (Fin 20)"
    by (simp add: onDemand_limit_eq)
  moreover have "count \<noteq> JUndefined \<and> (ToNumber count = Some NaN \<or> ToNumber count = Some (Fin 0))
      \<longrightarrow> onDemand_limit count = Some (Fin 30)"
    by (auto simp: onDemand_limit_eq)
  moreover have "count \<noteq> JUndefined \<and> ToNumber count = Some n \<and> n \<noteq> NaN \<and> n \<noteq> Fin 0
      \<longrightarrow> onDemand_limit count = Some (js_min (Fin 200) n)"
    by (cases n) (auto simp: onDemand_limit_eq js_min_200)
  ultimately show ?thesis by blast
qed

theorem onDemand_limit_and_length_witness:
  "onDemand_limit JUndefined = Some (Fin 20)
   \<and> ToNumber (JStr ''abc'') = Some NaN
   \<and> onDemand_limit (JStr ''abc'') = Some (Fin 30)
   \<and> ToNumber (JNum (Fin 500)) = Some (Fin 500)
   \<and> onDemand_limit (JNum (Fin 500)) = Some (Fin 200)
   \<and> GetOnDemand example_server (JNum (Fin 2))
       = Some ([Request ''/Users/u7/Items/Resume'' (JObj [(''Limit'', JNum (Fin 2))]),
                Request ''/Items/Latest'' (JObj [(''Limit'', JNum (Fin 2))])],
               JArr [JObj example_item_card, JObj example_item_card])
   \<and> onDemand_limit (JNum (Fin 2)) = Some (Fin 2)
   \<and> length [JObj example_item_card, JObj example_item_card] \<le> 2"
  using onDemand_limit_and_length [of JUndefined]
    onDemand_limit_and_length [of "JStr ''abc''"]
    onDemand_limit_and_length [of "JNum (Fin 500)" "Fin 500"]
    onDemand_limit_and_length [of "JNum (Fin 2)" "Fin 2" example_server
      "[Request ''/Users/u7/Items/Resume'' (JObj [(''Limit'', JNum (Fin 2))]),
        Request ''/Items/Latest'' (JObj [(''Limit'', JNum (Fin 2))])]"
      "JArr [JObj example_item_card, JObj example_item_card]"]
    example_on_demand
  by (simp add: StringToNumber_abc js_min_200)


lemma count_counterexample_values:
  "GetOnDemand example_server (JNum (Fin 0))
     = Some ([Request ''/Users/u7/Items/Resume'' (JObj [(''Limit'', JNum (Fin 30))]),
              Request ''/Items/Latest'' (JObj [(''Limit'', JNum (Fin 30))])],
             JArr [JObj example_item_card, JObj example_item_card, JObj example_item_card])
   \<and> GetOnDemand example_server (JNum (Fin (- 1)))
     = Some ([Request ''/Users/u7/Items/Resume'' (JObj [(''Limit'', JNum (Fin (- 1)))]),
              Request ''/Items/Latest'' (JObj [(''Limit'', JNum (Fin (- 1)))])],
             JArr [JObj example_item_card, JObj example_item_card])"
  by code_simp

text \<open>
  Claim C1 as stated fails: an unspecified count gives 20, not 30; the count 0 gives 30,
  and three cards come back; the count -1 stays -1, is sent upstream, and two cards
  come back.
\<close>

theorem count_not_clamped_counterexample:
  "onDemand_limit JUndefined = Some (Fin 20) \<and> count_spec JUndefined = Fin 30
   \<and> onDemand_limit (JNum (Fin 0)) = Some (Fin 30) \<and> count_spec (JNum (Fin 0)) = Fin 0
   \<and> onDemand_limit (JNum (Fin (- 1))) = Some (Fin (- 1)) \<and> count_spec (JNum (Fin (- 1))) = Fin 0
   \<and> GetOnDemand example_server (JNum (Fin 0))
     = Some ([Request ''/Users/u7/Items/Resume'' (JObj [(''Limit'', JNum (Fin 30))]),
              Request ''/Items/Latest'' (JObj [(''Limit'', JNum (Fin 30))])],
             JArr [JObj example_item_card, JObj example_item_card, JObj example_item_card])
   \<and> GetOnDemand example_server (JNum (Fin (- 1)))
     = Some ([Request ''/Users/u7/Items/Resume'' (JObj [(''Limit'', JNum (Fin (- 1)))]),
              Request ''/Items/Latest'' (JObj [(''Limit'', JNum (Fin (- 1)))])],
             JArr [JObj example_item_card, JObj example_item_card])"
  using count_counterexample_values
  by (simp add: onDemand_limit_eq count_spec_def)

subsection \<open>Failures, and the fallback of GetOnDemand\<close>

lemma userId_or_true: "truthy (js_or u (JBool True))"
  by (simp add: js_or_def)

lemma no_items_empty: "no_items (JArr [])"
  by (simp add: no_items_def)






text \<open>
  Claim C2, amended. When no user id is configured, or when the resume fetch succeeds
  with no items (the item list is falsy or has length 0), \<^verbatim>\<open>GetOnDemand\<close> fetches the
  recently-added source, and its result is the recently-added items, mapped and
  truncated (the empty array when that fetch or the mapping fails): never a mix of the
  two sources. When the resume fetch fails, the result is the empty array and the
  recently-added source is not fetched.
\<close>

theorem fallback_to_latest:
  "(onDemand_limit count = Some limit \<and> \<not> truthy (userId self) \<longrightarrow>
      GetOnDemand self count =
        Some ([latest_request limit],
              case client self (latest_request limit) of
                None \<Rightarrow> JArr []
              | Some d \<Rightarrow> (case cards_of (items_of d) limit of None \<Rightarrow> JArr [] | Some cards \<Rightarrow> cards)))
   \<and> (onDemand_limit count = Some limit \<and> truthy (userId self)
        \<and> resume_request self limit = Some req \<and> client self req = Some data
        \<and> no_items (items_of data) \<longrightarrow>
      GetOnDemand self count =
        Some ([req, latest_request limit],
              case client self (latest_request limit) of
                None \<Rightarrow> JArr []
              | Some d \<Rightarrow> (case cards_of (items_of d) limit of None \<Rightarrow> JArr [] | Some cards \<Rightarrow> cards)))
   \<and> (onDemand_limit count = Some limit \<and> truthy (userId self)
        \<and> resume_request self limit = Some req \<and> client self req = None \<longrightarrow>
      GetOnDemand self count = Some ([req], JArr []))"
proof (intro conjI impI)
  assume a: "onDemand_limit count = Some limit \<and> \<not> truthy (userId self)"
  then have "resume_step self limit = ([], Some (JArr []))"
    by (simp add: resume_step_def)
  then have "GetOnDemand_try self limit =
      ([latest_request limit],
       case client self (latest_request limit) of
         None \<Rightarrow> None | Some d \<Rightarrow> cards_of (items_of d) limit)"
    by (simp add: GetOnDemand_try_def latest_step_def no_items_empty userId_or_true
        split: option.splits)
  with a show "GetOnDemand self count =
        Some ([latest_request limit],
              case client self (latest_request limit) of
                None \<Rightarrow> JArr []
              | Some d \<Rightarrow> (case cards_of (items_of d) limit of None \<Rightarrow> JArr [] | Some cards \<Rightarrow> cards))"
    by (simp add: GetOnDemand_limit split: option.splits)
next
  assume a: "onDemand_limit count = Some limit \<and> truthy (userId self)
        \<and> resume_request self limit = Some req \<and> client self req = Some data
        \<and> no_items (items_of data)"
  then have "resume_step self limit = ([req], Some (items_of data))"
    by (simp add: resume_step_def)
  with a have "GetOnDemand_try self limit =
      ([req, latest_request limit],
       case client self (latest_request limit) of
         None \<Rightarrow> None | Some d \<Rightarrow> cards_of (items_of d) limit)"
    by (simp add: GetOnDemand_try_def latest_step_def userId_or_true split: option.splits)
  with a show "GetOnDemand self count =
        Some ([req, latest_request limit],
              case client self (latest_request limit) of
                None \<Rightarrow> JArr []
              | Some d \<Rightarrow> (case cards_of (items_of d) limit of None \<Rightarrow> JArr [] | Some cards \<Rightarrow> cards))"
    by (simp add: GetOnDemand_limit split: option.splits)
next
  assume a: "onDemand_limit count = Some limit \<and> truthy (userId self)
        \<and> resume_request self limit = Some req \<and> client self req = None"
  then have "resume_step self limit = ([req], None)"
    by (simp add: resume_step_def)
  then have "GetOnDemand_try self limit = ([req], None)"
    by (simp add: GetOnDemand_try_def latest_step_def)
  with a show "GetOnDemand self count = Some ([req], JArr [])"
    by (simp add: GetOnDemand_limit)
qed

lemma example_fallback:
  "onDemand_limit JUndefined = Some (Fin 20)
   \<and> \<not> truthy (userId (example_server\<lparr>userId := JNull\<rparr>))
   \<and> GetOnDemand (example_server\<lparr>userId := JNull\<rparr>) JUndefined
       = Some ([latest_request (Fin 20)],
               JArr [JObj example_item_card, JObj example_item_card, JObj example_item_card])
   \<and> truthy (userId example_server)
   \<and> resume_request example_server (Fin 20)
       = Some (Request ''/Users/u7/Items/Resume'' (JObj [(''Limit'', JNum (Fin 20))]))
   \<and> client example_server (Request ''/Users/u7/Items/Resume'' (JObj [(''Limit'', JNum (Fin 20))]))
       = Some (JObj [(''Items'', JArr [])])
   \<and> no_items (items_of (JObj [(''Items'', JArr [])]))
   \<and> GetOnDemand example_server JUndefined
       = Some ([Request ''/Users/u7/Items/Resume'' (JObj [(''Limit'', JNum (Fin 20))]),
                latest_request (Fin 20)],
               JArr [JObj example_item_card, JObj example_item_card, JObj example_item_card])
   \<and> truthy (userId failing_server)
   \<and> resume_request failing_server (Fin 20)
       = Some (Request ''/Users/u7/Items/Resume'' (JObj [(''Limit'', JNum (Fin 20))]))
   \<and> client failing_server (Request ''/Users/u7/Items/Resume'' (JObj [(''Limit'', JNum (Fin 20))]))
       = None
   \<and> GetOnDemand failing_server JUndefined
       = Some ([Request ''/Users/u7/Items/Resume'' (JObj [(''Limit'', JNum (Fin 20))])], JArr [])"
  by code_simp

theorem fallback_to_latest_witness:
  "onDemand_limit JUndefined = Some (Fin 20)
   \<and> \<not> truthy (userId (example_server\<lparr>userId := JNull\<rparr>))
   \<and> GetOnDemand (example_server\<lparr>userId := JNull\<rparr>) JUndefined
       = Some ([latest_request (Fin 20)],
               JArr [JObj example_item_card, JObj example_item_card, JObj example_item_card])
   \<and> truthy (userId example_server)
   \<and> resume_request example_server (Fin 20)
       = Some (Request ''/Users/u7/Items/Resume'' (JObj [(''Limit'', JNum (Fin 20))]))
   \<and> client example_server (Request ''/Users/u7/Items/Resume'' (JObj [(''Limit'', JNum (Fin 20))]))
       = Some (JObj [(''Items'', JArr [])])
   \<and> no_items (items_of (JObj [(''Items'', JArr [])]))
   \<and> GetOnDemand example_server JUndefined
       = Some ([Request ''/Users/u7/Items/Resume'' (JObj [(''Limit'', JNum (Fin 20))]),
                latest_request (Fin 20)],
               JArr [JObj example_item_card, JObj example_item_card, JObj example_item_card])
   \<and> truthy (userId failing_server)
   \<and> resume_request failing_server (Fin 20)
       = Some (Request ''/Users/u7/Items/Resume'' (JObj [(''Limit'', JNum (Fin 20))]))
   \<and> client failing_server (Request ''/Users/u7/Items/Resume'' (JObj [(''Limit'', JNum (Fin 20))]))
       = None
   \<and> GetOnDemand failing_server JUndefined
       = Some ([Request ''/Users/u7/Items/Resume'' (JObj [(''Limit'', JNum (Fin 20))])], JArr [])"
  using fallback_to_latest [of JUndefined "Fin 20" "example_server\<lparr>userId := JNull\<rparr>"]
    fallback_to_latest [of JUndefined "Fin 20" example_server
      "Request ''/Users/u7/Items/Resume'' (JObj [(''Limit'', JNum (Fin 20))])"
      "JObj [(''Items'', JArr [])]"]
    fallback_to_latest [of JUndefined "Fin 20" failing_server
      "Request ''/Users/u7/Items/Resume'' (JObj [(''Limit'', JNum (Fin 20))])"]
    example_fallback
  by blast

text \<open>
  Claim C2 as stated fails: with a resume fetch that fails and a recently-added fetch
  that would give one item, \<^verbatim>\<open>GetOnDemand\<close> makes the resume request only and returns
  the empty array.
\<close>

theorem resume_failure_counterexample:
  "truthy (userId failing_server)
   \<and> client failing_server (Request ''/Users/u7/Items/Resume'' (JObj [(''Limit'', JNum (Fin 20))]))
       = None
   \<and> client failing_server (latest_request (Fin 20)) = Some (JArr [example_item])
   \<and> cards_of (items_of (JArr [example_item])) (Fin 20) = Some (JArr [JObj example_item_card])
   \<and> GetOnDemand failing_server JUndefined
       = Some ([Request ''/Users/u7/Items/Resume'' (JObj [(''Limit'', JNum (Fin 20))])], JArr [])"
  by code_simp

end
